theory Spec2Isabelle
  imports Complex_Main
begin

section \<open>Data model of \<open>core.py\<close>\<close>

text \<open>
  Python floats are modelled as \<^typ>\<open>real\<close> and Python's unbounded integers as
  \<^typ>\<open>int\<close>. Wall-clock timestamps (\<open>datetime\<close>) are seconds as \<^typ>\<open>real\<close>.
  Exceptions are values of \<open>py_error\<close>.
\<close>

datatype py_error = ValueError | ZeroDivisionError | TypeError

datatype OrderStatus =
  RECEIVED | PICKING | PICKED | PACKING | PACKED | SHIPPING | COMPLETED | CANCELLED

fun status_value :: "OrderStatus \<Rightarrow> string" where
  "status_value RECEIVED = ''received''"
| "status_value PICKING = ''picking''"
| "status_value PICKED = ''picked''"
| "status_value PACKING = ''packing''"
| "status_value PACKED = ''packed''"
| "status_value SHIPPING = ''shipping''"
| "status_value COMPLETED = ''completed''"
| "status_value CANCELLED = ''cancelled''"

datatype EventType =
  ORDER_CREATED | ORDER_STATUS_CHANGED | INVENTORY_UPDATED | WORKER_ASSIGNED
| WORKER_RELEASED | RESOURCE_ALLOCATED | RESOURCE_RELEASED | SIMULATION_TICK
| SYNC_REQUEST | CALIBRATION_TRIGGER

text \<open>
  The values stored in an event's open key-value payload (\<open>Dict[str, Any]\<close>):
  the scalar values \<open>None\<close>, booleans, strings, integers and floats.
\<close>

datatype py_value = VNone | VBool bool | VStr string | VInt int | VFloat real

text \<open>Python truthiness, as used by \<open>if order_id:\<close>.\<close>

fun truthy :: "py_value \<Rightarrow> bool" where
  "truthy VNone = False"
| "truthy (VBool b) = b"
| "truthy (VStr s) = (s \<noteq> [])"
| "truthy (VInt i) = (i \<noteq> 0)"
| "truthy (VFloat r) = (r \<noteq> 0)"

text \<open>
  Keys of a Python dictionary: two keys are the same key when they are equal, and
  numbers of different types are equal when their values are (\<open>1\<close>, \<open>1.0\<close> and
  \<open>True\<close> are one key). \<open>dict_key\<close> maps every value to one representative of
  its class of equal values; a dictionary keyed by arbitrary values is a map on
  these representatives.
\<close>

fun dict_key :: "py_value \<Rightarrow> py_value" where
  "dict_key VNone = VNone"
| "dict_key (VBool b) = VFloat (if b then 1 else 0)"
| "dict_key (VStr s) = VStr s"
| "dict_key (VInt i) = VFloat (real_of_int i)"
| "dict_key (VFloat r) = VFloat r"

text \<open>\<open>d.get(k)\<close> for a string key: the value stored under \<open>k\<close>, or \<open>None\<close>.\<close>

definition dict_get :: "(string \<times> py_value) list \<Rightarrow> string \<Rightarrow> py_value" where
  "dict_get d k = (case map_of d k of None \<Rightarrow> VNone | Some v \<Rightarrow> v)"

record InventoryItem =
  inv_sku :: string
  inv_name :: string
  inv_quantity :: int
  inv_location :: string
  min_stock :: int
  max_stock :: int

record OrderLine =
  sku :: string
  quantity :: int
  picked_quantity :: int
  location :: "string option"

record Order =
  order_id :: string
  customer_id :: string
  lines :: "OrderLine list"
  status :: OrderStatus
  priority :: int
  pick_start_time :: "real option"
  pick_end_time :: "real option"
  pack_start_time :: "real option"
  pack_end_time :: "real option"
  completed_at :: "real option"

definition total_items :: "Order \<Rightarrow> int" where
  "total_items ord = sum_list (map quantity (lines ord))"

definition picked_items :: "Order \<Rightarrow> int" where
  "picked_items ord = sum_list (map picked_quantity (lines ord))"

definition is_fully_picked :: "Order \<Rightarrow> bool" where
  "is_fully_picked ord = list_all (\<lambda>l. picked_quantity l \<ge> quantity l) (lines ord)"

record WarehouseEvent =
  event_id :: string
  event_type :: EventType
  timestamp :: real
  data :: "(string \<times> py_value) list"
  source :: string
  processed :: bool

section \<open>The bounded event buffer\<close>

text \<open>
  \<open>collections.deque(maxlen=n)\<close>: construction raises \<open>ValueError\<close> for a negative
  \<open>maxlen\<close>; \<open>append\<close> inserts at the right end and, when the length then exceeds
  \<open>maxlen\<close>, removes the leftmost element.
\<close>

record 'a deque =
  items :: "'a list"
  maxlen :: nat

definition deque_new :: "int \<Rightarrow> py_error + 'a deque" where
  "deque_new n = (if n < 0 then Inl ValueError else Inr \<lparr>items = [], maxlen = nat n\<rparr>)"

definition deque_append :: "'a deque \<Rightarrow> 'a \<Rightarrow> 'a deque" where
  "deque_append d x =
     (let ys = items d @ [x]
      in d\<lparr>items := (if length ys > maxlen d then tl ys else ys)\<rparr>)"

text \<open>The format specification \<open>{n:06d}\<close> for a non-negative \<open>n\<close>.\<close>

fun decimal :: "nat \<Rightarrow> string" where
  "decimal n = (if n < 10 then [''0123456789'' ! n]
                else decimal (n div 10) @ [''0123456789'' ! (n mod 10)])"

declare decimal.simps [simp del]

definition fmt_06d :: "nat \<Rightarrow> string" where
  "fmt_06d n = (let s = decimal n in replicate (6 - length s) CHR ''0'' @ s)"

section \<open>Configuration, metrics and the twin's state\<close>

record SimulationConfig =
  num_workers :: int
  num_forklifts :: int
  pick_time_mean :: real
  pick_time_std :: real
  pack_time_mean :: real
  pack_time_std :: real
  transport_time_mean :: real
  transport_time_std :: real
  event_buffer_size :: int
  sync_threshold :: real

record DigitalTwinMetrics =
  orders_completed :: int
  total_items_picked :: int
  total_picking_time :: real
  total_packing_time :: real
  total_order_time :: real
  order_times :: "real list"
  pick_times :: "real list"
  pack_times :: "real list"
  items_per_order :: "int list"

definition metrics_init :: DigitalTwinMetrics where
  "metrics_init =
     \<lparr>orders_completed = 0, total_items_picked = 0, total_picking_time = 0,
      total_packing_time = 0, total_order_time = 0, order_times = [], pick_times = [],
      pack_times = [], items_per_order = []\<rparr>"

text \<open>
  The external adapter as the twin sees it: its \<open>connected\<close> attribute and the
  mapping that \<open>fetch_inventory()\<close> returns. A Python \<open>dict\<close> is an association
  list in insertion order.
\<close>

record ERPAdapter =
  connected :: bool
  fetch_inventory :: "(string \<times> InventoryItem) list"

text \<open>The parameters a calibration run returns; a key that is absent is \<open>None\<close>.\<close>

record Calibrated =
  cal_pick_time_mean :: "real option"
  cal_pick_time_std :: "real option"
  cal_pack_time_mean :: "real option"
  cal_pack_time_std :: "real option"

record CalibrationRecord =
  cal_timestamp :: real
  num_events :: nat
  calibrated_params :: Calibrated

text \<open>
  \<open>env_present\<close> says whether the simulation environment could be built
  (\<open>self.env\<close> is not \<open>None\<close>); \<open>env_now\<close> is its virtual clock and
  \<open>wall_clock\<close> the reading of \<open>datetime.now()\<close>.
\<close>

record WarehouseDigitalTwin =
  config :: SimulationConfig
  erp_adapter :: ERPAdapter
  env_present :: bool
  env_now :: real
  wall_clock :: real
  inventory :: "(string \<times> InventoryItem) list"
  active_orders :: "(string \<times> Order) list"
  completed_orders :: "Order list"
  metrics :: DigitalTwinMetrics
  event_buffer :: "WarehouseEvent deque"
  calibration_data :: "CalibrationRecord list"

definition record_event ::
  "WarehouseDigitalTwin \<Rightarrow> EventType \<Rightarrow> (string \<times> py_value) list \<Rightarrow> WarehouseDigitalTwin" where
  "record_event tw ty d =
     (let event = \<lparr>event_id = ''DT-'' @ fmt_06d (length (items (event_buffer tw))),
                    event_type = ty, timestamp = wall_clock tw, data = d,
                    source = ''simulation'', processed = False\<rparr>
      in tw\<lparr>event_buffer := deque_append (event_buffer tw) event\<rparr>)"

text \<open>A run of \<open>_record_event\<close> calls, one per element of the list.\<close>

fun record_events ::
  "WarehouseDigitalTwin \<Rightarrow> (EventType \<times> (string \<times> py_value) list) list \<Rightarrow> WarehouseDigitalTwin" where
  "record_events tw [] = tw"
| "record_events tw ((ty, d) # es) = record_events (record_event tw ty d) es"

text \<open>The identifiers handed out by a run of \<open>_record_event\<close> calls, in order.\<close>

fun assigned_ids ::
  "WarehouseDigitalTwin \<Rightarrow> (EventType \<times> (string \<times> py_value) list) list \<Rightarrow> string list" where
  "assigned_ids tw [] = []"
| "assigned_ids tw ((ty, d) # es) =
     (''DT-'' @ fmt_06d (length (items (event_buffer tw)))) # assigned_ids (record_event tw ty d) es"

text \<open>
  The part of \<open>WarehouseDigitalTwin.__init__\<close> that builds the state: the buffer is
  \<open>deque(maxlen=config.event_buffer_size)\<close>, everything else starts empty, and
  \<open>_sync_from_erp\<close> copies the adapter's inventory when it is connected.
\<close>

definition twin_init ::
  "SimulationConfig \<Rightarrow> ERPAdapter \<Rightarrow> bool \<Rightarrow> real \<Rightarrow> py_error + WarehouseDigitalTwin" where
  "twin_init cfg erp simpy_available wall =
     (case deque_new (event_buffer_size cfg) of
        Inl e \<Rightarrow> Inl e
      | Inr buf \<Rightarrow>
          Inr \<lparr>config = cfg, erp_adapter = erp, env_present = simpy_available, env_now = 0,
               wall_clock = wall,
               inventory = (if connected erp then fetch_inventory erp else []),
               active_orders = [], completed_orders = [], metrics = metrics_init,
               event_buffer = buf, calibration_data = []\<rparr>)"

section \<open>Metrics\<close>

text \<open>Truthiness of an optional float: \<open>None\<close> and \<open>0.0\<close> are both false.\<close>

fun truthy_time :: "real option \<Rightarrow> bool" where
  "truthy_time None = False"
| "truthy_time (Some t) = (t \<noteq> 0)"

definition record_order_completion :: "DigitalTwinMetrics \<Rightarrow> Order \<Rightarrow> real \<Rightarrow> DigitalTwinMetrics" where
  "record_order_completion m ord total_time =
     (let m1 = m\<lparr>orders_completed := orders_completed m + 1,
                  total_items_picked := total_items_picked m + total_items ord,
                  total_order_time := total_order_time m + total_time,
                  order_times := order_times m @ [total_time],
                  items_per_order := items_per_order m @ [total_items ord]\<rparr>;
          m2 = (if truthy_time (pick_end_time ord) \<and> truthy_time (pick_start_time ord)
                then (let pick_time = the (pick_end_time ord) - the (pick_start_time ord)
                      in m1\<lparr>total_picking_time := total_picking_time m1 + pick_time,
                            pick_times := pick_times m1 @ [pick_time]\<rparr>)
                else m1)
      in (if truthy_time (pack_end_time ord) \<and> truthy_time (pack_start_time ord)
          then (let pack_time = the (pack_end_time ord) - the (pack_start_time ord)
                in m2\<lparr>total_packing_time := total_packing_time m2 + pack_time,
                      pack_times := pack_times m2 @ [pack_time]\<rparr>)
          else m2))"

text \<open>\<open>statistics.mean\<close>, \<open>statistics.stdev\<close> and \<open>statistics.median\<close>, on the
  inputs the callers give them (a non-empty list; at least two points for \<open>stdev\<close>).\<close>

definition mean :: "real list \<Rightarrow> real" where
  "mean xs = sum_list xs / real (length xs)"

definition stdev :: "real list \<Rightarrow> real" where
  "stdev xs = sqrt (sum_list (map (\<lambda>x. (x - mean xs)\<^sup>2) xs) / real (length xs - 1))"

definition median :: "real list \<Rightarrow> real" where
  "median xs =
     (let ys = sort xs; n = length ys
      in if n mod 2 = 1 then ys ! (n div 2)
         else (ys ! (n div 2 - 1) + ys ! (n div 2)) / 2)"

record Summary =
  sum_orders_completed :: int
  sum_total_items_picked :: int
  avg_order_time :: real
  avg_picking_time :: real
  avg_packing_time :: real
  avg_items_per_order :: real
  order_time_std :: "real option"
  order_time_min :: "real option"
  order_time_max :: "real option"
  order_time_median :: "real option"
  throughput_orders_per_hour :: "real option"
  throughput_items_per_hour :: "real option"

text \<open>
  \<open>get_summary\<close>. The keys that Python adds conditionally are optional fields.
  A float division by \<open>0.0\<close> raises \<open>ZeroDivisionError\<close>.
\<close>

definition get_summary :: "DigitalTwinMetrics \<Rightarrow> py_error + Summary" where
  "get_summary m =
     (let n = real_of_int (max 1 (orders_completed m));
          s0 = \<lparr>sum_orders_completed = orders_completed m,
                sum_total_items_picked = total_items_picked m,
                avg_order_time = total_order_time m / n,
                avg_picking_time = total_picking_time m / n,
                avg_packing_time = total_packing_time m / n,
                avg_items_per_order = real_of_int (total_items_picked m) / n,
                order_time_std = None, order_time_min = None, order_time_max = None,
                order_time_median = None,
                throughput_orders_per_hour = None, throughput_items_per_hour = None\<rparr>;
          s1 = (if order_times m \<noteq> []
                then s0\<lparr>order_time_std :=
                           Some (if length (order_times m) > 1 then stdev (order_times m) else 0),
                        order_time_min := Some (Min (set (order_times m))),
                        order_time_max := Some (Max (set (order_times m))),
                        order_time_median := Some (median (order_times m))\<rparr>
                else s0)
      in if orders_completed m > 0 \<and> order_times m \<noteq> []
         then (if avg_order_time s1 = 0 then Inl ZeroDivisionError
               else (let t = 60 / avg_order_time s1
                     in Inr (s1\<lparr>throughput_orders_per_hour := Some t,
                                throughput_items_per_hour := Some (t * avg_items_per_order s1)\<rparr>)))
         else Inr s1)"

section \<open>The order fulfilment process\<close>

text \<open>
  \<open>order_process\<close> is a generator that the simulation environment resumes at each
  \<open>yield\<close>. The model runs one order's process from start to completion: a wait for
  a resource token or a timeout advances the virtual clock by the time the process
  stays suspended, and the code between two suspension points runs atomically, as
  it does under the cooperative scheduler. The random draws and the waiting times
  are inputs.
\<close>

text \<open>
  \<open>x ** 0.5\<close> for an integer \<open>x\<close>: a float when \<open>x\<close> is not negative, a complex
  number (\<open>None\<close> here) when it is. A float times a complex number is complex.
\<close>

definition pow_half :: "int \<Rightarrow> real option" where
  "pow_half x = (if x < 0 then None else Some (sqrt (real_of_int x)))"

definition scaled_std :: "real \<Rightarrow> real option \<Rightarrow> real option" where
  "scaled_std s rt = map_option (\<lambda>r. s * r) rt"

text \<open>
  \<open>_sample_time(mean, std)\<close> (the mean is \<open>mu\<close> here), given the value \<open>draw\<close> that the generator returns.
  With a complex \<open>std\<close> both branches raise \<open>TypeError\<close>: \<open>np.random.normal\<close>
  cannot convert it, and \<open>random.gauss\<close> returns a complex number that
  \<open>max(0.1, ...)\<close> cannot compare. \<open>np.random.normal\<close> raises \<open>ValueError\<close> for a
  negative \<open>std\<close>; \<open>random.gauss\<close> accepts one. \<open>numpy\<close> is the module's flag
  \<open>NUMPY_AVAILABLE\<close>.
\<close>

definition sample_time :: "bool \<Rightarrow> real \<Rightarrow> real option \<Rightarrow> real \<Rightarrow> py_error + real" where
  "sample_time numpy mu std draw =
     (case std of
        None \<Rightarrow> Inl TypeError
      | Some s \<Rightarrow> if numpy \<and> s < 0 then Inl ValueError else Inr (max (1 / 10) draw))"

definition advance :: "WarehouseDigitalTwin \<Rightarrow> real \<Rightarrow> WarehouseDigitalTwin" where
  "advance tw d = tw\<lparr>env_now := env_now tw + d\<rparr>"

text \<open>\<open>self.inventory[s].quantity -= q\<close> for a key \<open>s\<close> of the dictionary.\<close>

definition decrement_quantity ::
  "(string \<times> InventoryItem) list \<Rightarrow> string \<Rightarrow> int \<Rightarrow> (string \<times> InventoryItem) list" where
  "decrement_quantity inventory_dict s q =
     map (\<lambda>(k, item). if k = s then (k, item\<lparr>inv_quantity := inv_quantity item - q\<rparr>)
                        else (k, item)) inventory_dict"

text \<open>
  The body of the loop over the order's lines after its last suspension point:
  the line is marked picked, and the inventory is decremented and an
  \<open>INVENTORY_UPDATED\<close> event recorded only when the SKU is a key of the inventory.
\<close>

definition pick_segment ::
  "WarehouseDigitalTwin \<Rightarrow> OrderLine \<Rightarrow> WarehouseDigitalTwin \<times> OrderLine" where
  "pick_segment tw line =
     (let line' = line\<lparr>picked_quantity := quantity line\<rparr>
      in if map_of (inventory tw) (sku line) \<noteq> None
         then (record_event
                 (tw\<lparr>inventory := decrement_quantity (inventory tw) (sku line) (quantity line)\<rparr>)
                 INVENTORY_UPDATED
                 [(''sku'', VStr (sku line)), (''change'', VInt (- quantity line)),
                  (''sim_time'', VFloat (env_now tw))],
               line')
         else (tw, line'))"

text \<open>
  One iteration of the loop: the wait for a forklift, the travel time and its
  timeout, the pick time and its timeout, then the segment above. The draws for
  a line are the forklift waiting time and the two values the generator
  returns. An exception raised while a time is sampled leaves the process; the
  line is not marked picked then.
\<close>

definition pick_line ::
  "WarehouseDigitalTwin \<Rightarrow> bool \<Rightarrow> real \<times> real \<times> real \<Rightarrow> OrderLine
     \<Rightarrow> py_error + WarehouseDigitalTwin \<times> OrderLine" where
  "pick_line tw numpy dr line =
     (case dr of (forklift_wait, travel_draw, pick_draw) \<Rightarrow>
        (case sample_time numpy (transport_time_mean (config tw))
                (Some (transport_time_std (config tw))) travel_draw of
           Inl e \<Rightarrow> Inl e
         | Inr travel_time \<Rightarrow>
             (case sample_time numpy (pick_time_mean (config tw) * real_of_int (quantity line))
                     (scaled_std (pick_time_std (config tw)) (pow_half (quantity line)))
                     pick_draw of
                Inl e \<Rightarrow> Inl e
              | Inr pick_time \<Rightarrow>
                  Inr (pick_segment
                         (advance (advance (advance tw forklift_wait) travel_time) pick_time)
                         line))))"

fun pick_lines ::
  "WarehouseDigitalTwin \<Rightarrow> bool \<Rightarrow> (nat \<Rightarrow> real \<times> real \<times> real) \<Rightarrow> nat \<Rightarrow> OrderLine list
     \<Rightarrow> py_error + WarehouseDigitalTwin \<times> OrderLine list" where
  "pick_lines tw numpy draws i [] = Inr (tw, [])"
| "pick_lines tw numpy draws i (l # ls) =
     (case pick_line tw numpy (draws i) l of
        Inl e \<Rightarrow> Inl e
      | Inr (tw1, l') \<Rightarrow>
          (case pick_lines tw1 numpy draws (Suc i) ls of
             Inl e \<Rightarrow> Inl e
           | Inr (tw2, ls') \<Rightarrow> Inr (tw2, l' # ls')))"

text \<open>
  What the libraries give one process: whether NumPy is importable
  (\<open>NUMPY_AVAILABLE\<close>), the times it waits for resource tokens, and the values
  the generator returns.
\<close>

record ProcessDraws =
  numpy_available :: bool
  worker_wait :: real
  line_draws :: "nat \<Rightarrow> real \<times> real \<times> real"
  pack_worker_wait :: real
  pack_draw :: real
  ship_draw :: real

definition order_process ::
  "WarehouseDigitalTwin \<Rightarrow> ProcessDraws \<Rightarrow> Order \<Rightarrow> py_error + WarehouseDigitalTwin \<times> Order" where
  "order_process tw dr ord =
     (if \<not> env_present tw then Inr (tw, ord)
      else
        (let order_start = env_now tw;
             ord1 = ord\<lparr>status := PICKING, pick_start_time := Some (env_now tw)\<rparr>;
             tw1 = record_event tw ORDER_STATUS_CHANGED
                     [(''order_id'', VStr (order_id ord)),
                      (''status'', VStr (status_value PICKING)),
                      (''sim_time'', VFloat (env_now tw))];
             tw2 = advance tw1 (worker_wait dr);
             tw3 = record_event tw2 WORKER_ASSIGNED
                     [(''order_id'', VStr (order_id ord)), (''sim_time'', VFloat (env_now tw2))]
         in case pick_lines tw3 (numpy_available dr) (line_draws dr) 0 (lines ord1) of
              Inl e \<Rightarrow> Inl e
            | Inr (tw4, ls) \<Rightarrow>
           (let ord2 = ord1\<lparr>lines := ls, status := PICKED, pick_end_time := Some (env_now tw4)\<rparr>;
                ord3 = ord2\<lparr>status := PACKING, pack_start_time := Some (env_now tw4)\<rparr>
            in case sample_time (numpy_available dr)
                      (pack_time_mean (config tw4) * real_of_int (total_items ord3))
                      (scaled_std (pack_time_std (config tw4)) (pow_half (total_items ord3)))
                      (pack_draw dr) of
                 Inl e \<Rightarrow> Inl e
               | Inr pack_time \<Rightarrow>
           (let tw5 = advance (advance tw4 (pack_worker_wait dr)) pack_time;
                ord4 = ord3\<lparr>status := PACKED, pack_end_time := Some (env_now tw5)\<rparr>;
                ord5 = ord4\<lparr>status := SHIPPING\<rparr>
            in case sample_time (numpy_available dr) 1 (Some (1 / 5)) (ship_draw dr) of
                 Inl e \<Rightarrow> Inl e
               | Inr ship_time \<Rightarrow>
           (let tw6 = advance tw5 ship_time;
                ord6 = ord5\<lparr>status := COMPLETED, completed_at := Some (wall_clock tw6)\<rparr>;
                total_time = env_now tw6 - order_start;
                tw7 = tw6\<lparr>metrics := record_order_completion (metrics tw6) ord6 total_time\<rparr>;
                tw8 = record_event tw7 ORDER_STATUS_CHANGED
                        [(''order_id'', VStr (order_id ord6)),
                         (''status'', VStr (status_value COMPLETED)),
                         (''total_time'', VFloat total_time),
                         (''sim_time'', VFloat (env_now tw7))]
            in Inr (tw8\<lparr>completed_orders := completed_orders tw8 @ [ord6],
                         active_orders :=
                           filter (\<lambda>(k, v). k \<noteq> order_id ord6) (active_orders tw8)\<rparr>,
                    ord6))))))"

section \<open>Synchronisation drift\<close>

text \<open>
  The loop of \<open>calculate_sync_drift\<close> over \<open>self.inventory.items()\<close>, threading
  the pair \<open>(total_diff, total_items)\<close> (the second component is \<open>total_norm\<close> here).
\<close>

fun drift_totals ::
  "(string \<times> InventoryItem) list \<Rightarrow> (string \<times> InventoryItem) list \<Rightarrow> int \<times> int \<Rightarrow> int \<times> int" where
  "drift_totals [] erp_inventory acc = acc"
| "drift_totals ((s, dt_item) # rest) erp_inventory (total_diff, total_norm) =
     (case map_of erp_inventory s of
        None \<Rightarrow> drift_totals rest erp_inventory (total_diff, total_norm)
      | Some erp_item \<Rightarrow>
          (let erp_qty = inv_quantity erp_item; dt_qty = inv_quantity dt_item
           in drift_totals rest erp_inventory
                (total_diff + \<bar>erp_qty - dt_qty\<bar>, total_norm + max (max erp_qty dt_qty) 1)))"

definition calculate_sync_drift :: "WarehouseDigitalTwin \<Rightarrow> real \<times> WarehouseDigitalTwin" where
  "calculate_sync_drift tw =
     (if \<not> connected (erp_adapter tw) then (1, tw)
      else
        (case drift_totals (inventory tw) (fetch_inventory (erp_adapter tw)) (0, 0) of
           (total_diff, total_norm) \<Rightarrow>
             (let drift = (if total_norm > 0 then real_of_int total_diff / real_of_int total_norm else 0)
              in if drift > sync_threshold (config tw)
                 then (drift, record_event tw CALIBRATION_TRIGGER
                                [(''drift'', VFloat drift),
                                 (''threshold'', VFloat (sync_threshold (config tw)))])
                 else (drift, tw))))"

section \<open>Calibration from event logs\<close>

text \<open>
  The local variables of \<open>calibrate_from_erp_logs\<close> while it scans the events:
  three sample lists and three dictionaries keyed by order id (maps on the
  representatives \<open>dict_key\<close>).
\<close>

record CalibrationScan =
  cal_pick_times :: "real list"
  cal_pack_times :: "real list"
  cal_order_times :: "real list"
  order_starts :: "py_value \<rightharpoonup> real"
  order_picks :: "py_value \<rightharpoonup> real"
  order_packs :: "py_value \<rightharpoonup> real"

definition scan_init :: CalibrationScan where
  "scan_init =
     \<lparr>cal_pick_times = [], cal_pack_times = [], cal_order_times = [],
      order_starts = Map.empty, order_picks = Map.empty, order_packs = Map.empty\<rparr>"

text \<open>\<open>(a - b).total_seconds() / 60\<close> for two timestamps in seconds.\<close>

definition minutes_between :: "real \<Rightarrow> real \<Rightarrow> real" where
  "minutes_between a b = (a - b) / 60"

text \<open>The body of the loop, for one event.\<close>

definition calibrate_step :: "CalibrationScan \<Rightarrow> WarehouseEvent \<Rightarrow> CalibrationScan" where
  "calibrate_step st event =
     (if event_type event = ORDER_CREATED then
        (let oid = dict_get (data event) ''order_id''
         in if truthy oid then st\<lparr>order_starts := (order_starts st)(dict_key oid \<mapsto> timestamp event)\<rparr>
            else st)
      else if event_type event = ORDER_STATUS_CHANGED then
        (let oid = dict_get (data event) ''order_id'';
             new_status = dict_get (data event) ''new_status''
         in if truthy oid \<and> new_status = VStr (status_value PICKED) then
              (case order_starts st (dict_key oid) of
                 Some t0 \<Rightarrow>
                   st\<lparr>cal_pick_times := cal_pick_times st @ [minutes_between (timestamp event) t0],
                      order_picks := (order_picks st)(dict_key oid \<mapsto> timestamp event)\<rparr>
               | None \<Rightarrow> st)
            else if truthy oid \<and> new_status = VStr (status_value PACKED) then
              (case order_picks st (dict_key oid) of
                 Some t1 \<Rightarrow>
                   st\<lparr>cal_pack_times := cal_pack_times st @ [minutes_between (timestamp event) t1],
                      order_packs := (order_packs st)(dict_key oid \<mapsto> timestamp event)\<rparr>
               | None \<Rightarrow> st)
            else if truthy oid \<and> new_status = VStr (status_value COMPLETED) then
              (case order_starts st (dict_key oid) of
                 Some t0 \<Rightarrow>
                   st\<lparr>cal_order_times := cal_order_times st @ [minutes_between (timestamp event) t0]\<rparr>
               | None \<Rightarrow> st)
            else st)
      else st)"

definition calibrate_scan :: "WarehouseEvent list \<Rightarrow> CalibrationScan" where
  "calibrate_scan erp_events = foldl calibrate_step scan_init erp_events"

definition calibrate_from_erp_logs ::
  "WarehouseDigitalTwin \<Rightarrow> WarehouseEvent list \<Rightarrow> Calibrated \<times> WarehouseDigitalTwin" where
  "calibrate_from_erp_logs tw erp_events =
     (let st = calibrate_scan erp_events;
          ps = cal_pick_times st; ks = cal_pack_times st;
          calibrated =
            \<lparr>cal_pick_time_mean = (if ps \<noteq> [] then Some (mean ps) else None),
             cal_pick_time_std =
               (if ps \<noteq> [] then Some (if length ps > 1 then stdev ps else 1 / 2) else None),
             cal_pack_time_mean = (if ks \<noteq> [] then Some (mean ks) else None),
             cal_pack_time_std =
               (if ks \<noteq> [] then Some (if length ks > 1 then stdev ks else 1 / 2) else None)\<rparr>;
          cfg = config tw;
          cfg' = cfg\<lparr>pick_time_mean := (if ps \<noteq> [] then mean ps else pick_time_mean cfg),
                     pick_time_std :=
                       (if ps \<noteq> [] then (if length ps > 1 then stdev ps else 1 / 2)
                        else pick_time_std cfg),
                     pack_time_mean := (if ks \<noteq> [] then mean ks else pack_time_mean cfg),
                     pack_time_std :=
                       (if ks \<noteq> [] then (if length ks > 1 then stdev ks else 1 / 2)
                        else pack_time_std cfg)\<rparr>
      in (calibrated,
          tw\<lparr>calibration_data := calibration_data tw @
                 [\<lparr>cal_timestamp = wall_clock tw, num_events = length erp_events,
                   calibrated_params = calibrated\<rparr>],
             config := cfg'\<rparr>))"

text \<open>
  A reading of the input that does not use the loop's dictionaries.
  \<open>last_created before oid\<close> is the timestamp of the last \<open>ORDER_CREATED\<close> event
  among \<open>before\<close> whose order id is true and is the same dictionary key as \<open>oid\<close>.
  \<open>pick_samples before es\<close> lists, for the events \<open>es\<close> that come after the events
  \<open>before\<close>, one sample per picked status change whose order id has such a
  created event earlier in the input. \<open>picks_follow before es\<close> says that every such
  picked event carries a later timestamp than that created event.
\<close>

fun last_created :: "WarehouseEvent list \<Rightarrow> py_value \<Rightarrow> real option" where
  "last_created [] oid = None"
| "last_created (e # es) oid =
     (case last_created es oid of
        Some t \<Rightarrow> Some t
      | None \<Rightarrow>
          (if event_type e = ORDER_CREATED \<and> truthy (dict_get (data e) ''order_id'') \<and>
              dict_key (dict_get (data e) ''order_id'') = dict_key oid
           then Some (timestamp e) else None))"

definition is_picked_event :: "WarehouseEvent \<Rightarrow> bool" where
  "is_picked_event e =
     (event_type e = ORDER_STATUS_CHANGED \<and> truthy (dict_get (data e) ''order_id'') \<and>
      dict_get (data e) ''new_status'' = VStr ''picked'')"

fun pick_samples :: "WarehouseEvent list \<Rightarrow> WarehouseEvent list \<Rightarrow> real list" where
  "pick_samples before [] = []"
| "pick_samples before (e # es) =
     (if is_picked_event e
      then (case last_created before (dict_get (data e) ''order_id'') of
              Some t0 \<Rightarrow> [(timestamp e - t0) / 60]
            | None \<Rightarrow> [])
      else [])
     @ pick_samples (before @ [e]) es"

fun picks_follow :: "WarehouseEvent list \<Rightarrow> WarehouseEvent list \<Rightarrow> bool" where
  "picks_follow before [] = True"
| "picks_follow before (e # es) =
     ((if is_picked_event e
       then (case last_created before (dict_get (data e) ''order_id'') of
               Some t0 \<Rightarrow> t0 < timestamp e
             | None \<Rightarrow> True)
       else True)
      \<and> picks_follow (before @ [e]) es)"

section \<open>The resource pool\<close>

text \<open>
  Modelled from the spec: the Resource Pool. The source builds its pools with
  \<open>simpy.Resource(env, capacity=...)\<close> and uses them through \<open>request()\<close>; the
  class itself belongs to a library that is not among the sources. The model
  follows the contract of the specification: \<open>acquire\<close> grants a token at once
  when fewer tokens than the capacity are in use and otherwise puts the requesting
  process at the tail of the wait queue; \<open>release\<close> of a held token frees the
  slot and, when the queue is not empty, grants it to the head waiter at once.
  Processes are handles (\<^typ>\<open>nat\<close>). \<open>enqueued\<close> and \<open>resumed\<close> are history
  variables: the processes that were suspended, in request order, and the
  processes that were resumed from the queue, in resumption order.
\<close>

record ResourcePool =
  capacity :: nat
  users :: "nat list"
  wait_queue :: "nat list"
  enqueued :: "nat list"
  resumed :: "nat list"

definition in_use :: "ResourcePool \<Rightarrow> nat" where
  "in_use p = length (users p)"

definition pool_new :: "nat \<Rightarrow> ResourcePool" where
  "pool_new c = \<lparr>capacity = c, users = [], wait_queue = [], enqueued = [], resumed = []\<rparr>"

definition acquire :: "ResourcePool \<Rightarrow> nat \<Rightarrow> ResourcePool" where
  "acquire p h =
     (if in_use p < capacity p then p\<lparr>users := users p @ [h]\<rparr>
      else p\<lparr>wait_queue := wait_queue p @ [h], enqueued := enqueued p @ [h]\<rparr>)"

definition release :: "ResourcePool \<Rightarrow> nat \<Rightarrow> ResourcePool" where
  "release p h =
     (if h \<in> set (users p) then
        (let p' = p\<lparr>users := remove1 h (users p)\<rparr>
         in case wait_queue p' of
              [] \<Rightarrow> p'
            | w # ws \<Rightarrow> p'\<lparr>users := users p' @ [w], wait_queue := ws, resumed := resumed p' @ [w]\<rparr>)
      else p)"

datatype pool_op = Acquire nat | Release nat

fun pool_step :: "ResourcePool \<Rightarrow> pool_op \<Rightarrow> ResourcePool" where
  "pool_step p (Acquire h) = acquire p h"
| "pool_step p (Release h) = release p h"

definition pool_run :: "nat \<Rightarrow> pool_op list \<Rightarrow> ResourcePool" where
  "pool_run c ops = foldl pool_step (pool_new c) ops"

section \<open>Example states\<close>

definition example_config :: SimulationConfig where
  "example_config =
     \<lparr>num_workers = 5, num_forklifts = 2, pick_time_mean = 2, pick_time_std = 1 / 2,
      pack_time_mean = 3, pack_time_std = 4 / 5, transport_time_mean = 3 / 2,
      transport_time_std = 3 / 10, event_buffer_size = 2, sync_threshold = 1 / 20\<rparr>"

definition example_item :: "string \<Rightarrow> int \<Rightarrow> InventoryItem" where
  "example_item s q =
     \<lparr>inv_sku = s, inv_name = ''Product'', inv_quantity = q, inv_location = ''A-00-00'',
      min_stock = 10, max_stock = 100\<rparr>"

definition example_erp :: ERPAdapter where
  "example_erp =
     \<lparr>connected = True, fetch_inventory = [(''SKU-0000'', example_item ''SKU-0000'' 1)]\<rparr>"

definition example_twin :: WarehouseDigitalTwin where
  "example_twin =
     \<lparr>config = example_config, erp_adapter = example_erp, env_present = True, env_now = 0,
      wall_clock = 0, inventory = fetch_inventory example_erp, active_orders = [],
      completed_orders = [], metrics = metrics_init,
      event_buffer = \<lparr>items = [], maxlen = 2\<rparr>, calibration_data = []\<rparr>"

definition tick :: "EventType \<times> (string \<times> py_value) list" where
  "tick = (SIMULATION_TICK, [])"

definition example_line :: "string \<Rightarrow> int \<Rightarrow> OrderLine" where
  "example_line s q = \<lparr>sku = s, quantity = q, picked_quantity = 0, location = None\<rparr>"

definition example_order :: "OrderLine list \<Rightarrow> Order" where
  "example_order ls =
     \<lparr>order_id = ''SIM-000001'', customer_id = ''CUST-0001'', lines = ls, status = RECEIVED,
      priority = 1, pick_start_time = None, pick_end_time = None, pack_start_time = None,
      pack_end_time = None, completed_at = None\<rparr>"

definition example_draws :: ProcessDraws where
  "example_draws =
     \<lparr>numpy_available = True, worker_wait = 0, line_draws = (\<lambda>i. (0, 3 / 2, 2)), pack_worker_wait = 0,
      pack_draw = 3, ship_draw = 1\<rparr>"

definition example_event :: "EventType \<Rightarrow> real \<Rightarrow> (string \<times> py_value) list \<Rightarrow> WarehouseEvent" where
  "example_event ty t d =
     \<lparr>event_id = ''EV'', event_type = ty, timestamp = t, data = d, source = ''erp'',
      processed = False\<rparr>"

definition created_at_ev :: "py_value \<Rightarrow> real \<Rightarrow> WarehouseEvent" where
  "created_at_ev oid t = example_event ORDER_CREATED t [(''order_id'', oid)]"

definition picked_at_ev :: "py_value \<Rightarrow> real \<Rightarrow> WarehouseEvent" where
  "picked_at_ev oid t =
     example_event ORDER_STATUS_CHANGED t [(''order_id'', oid), (''new_status'', VStr ''picked'')]"

section \<open>Properties of the event buffer\<close>

lemma fmt_06d_values:
  "fmt_06d 0 = ''000000''" "fmt_06d 1 = ''000001''" "fmt_06d 2 = ''000002''"
  by code_simp+

lemma record_event_maxlen [simp]:
  "maxlen (event_buffer (record_event tw ty d)) = maxlen (event_buffer tw)"
  by (simp add: record_event_def deque_append_def Let_def)

lemma record_event_bounded:
  "length (items (event_buffer tw)) \<le> maxlen (event_buffer tw) \<Longrightarrow>
   length (items (event_buffer (record_event tw ty d))) \<le> maxlen (event_buffer tw)"
  by (simp add: record_event_def deque_append_def Let_def)

lemma record_events_maxlen [simp]:
  "maxlen (event_buffer (record_events tw es)) = maxlen (event_buffer tw)"
  by (induction tw es rule: record_events.induct) simp_all

lemma record_events_bounded:
  "length (items (event_buffer tw)) \<le> maxlen (event_buffer tw) \<Longrightarrow>
   length (items (event_buffer (record_events tw es))) \<le> maxlen (event_buffer tw)"
proof (induction tw es rule: record_events.induct)
  case (1 tw)
  then show ?case by simp
next
  case (2 tw ty d es)
  from "2.prems"
  have "length (items (event_buffer (record_event tw ty d)))
          \<le> maxlen (event_buffer (record_event tw ty d))"
    using record_event_bounded[of tw ty d] by simp
  from "2.IH"[OF this] show ?case by simp
qed

lemma twin_init_buffer:
  "twin_init cfg erp av wall = Inr tw \<Longrightarrow>
   items (event_buffer tw) = [] \<and> maxlen (event_buffer tw) = nat (event_buffer_size cfg)"
  by (auto simp: twin_init_def deque_new_def split: if_splits)

text \<open>
  Claim C5. After any sequence of appends to the event log of a freshly built
  twin, the log holds at most \<open>event_buffer_size\<close> events. An append to a log
  with room puts the new event at the tail; an append to a full log puts the new
  event at the tail and drops the head, the oldest entry.
\<close>

theorem event_buffer_bounded_fifo:
  assumes "twin_init cfg erp av wall = Inr tw0" and "tw = record_events tw0 es"
  shows "length (items (event_buffer tw)) \<le> nat (event_buffer_size cfg) \<and>
         (length (items (event_buffer tw)) < nat (event_buffer_size cfg) \<longrightarrow>
            items (event_buffer (record_event tw ty d)) =
              items (event_buffer tw) @
                [\<lparr>event_id = ''DT-'' @ fmt_06d (length (items (event_buffer tw))),
                  event_type = ty, timestamp = wall_clock tw, data = d,
                  source = ''simulation'', processed = False\<rparr>]) \<and>
         (length (items (event_buffer tw)) = nat (event_buffer_size cfg) \<longrightarrow>
            items (event_buffer (record_event tw ty d)) =
              tl (items (event_buffer tw) @
                [\<lparr>event_id = ''DT-'' @ fmt_06d (length (items (event_buffer tw))),
                  event_type = ty, timestamp = wall_clock tw, data = d,
                  source = ''simulation'', processed = False\<rparr>]))"
proof -
  have m: "maxlen (event_buffer tw) = nat (event_buffer_size cfg)"
    using assms twin_init_buffer[OF assms(1)] by simp
  have b: "length (items (event_buffer tw)) \<le> nat (event_buffer_size cfg)"
    using record_events_bounded[of tw0 es] twin_init_buffer[OF assms(1)] assms(2) by simp
  show ?thesis
    using m b by (simp add: record_event_def deque_append_def Let_def)
qed

theorem event_buffer_bounded_fifo_witness:
  "twin_init example_config example_erp True 0 = Inr example_twin \<and>
   length (items (event_buffer (record_events example_twin [tick, tick, tick]))) \<le> 2 \<and>
   map event_id (items (event_buffer
       (record_event (record_events example_twin [tick, tick, tick]) SIMULATION_TICK [])))
     = tl (map event_id (items (event_buffer (record_events example_twin [tick, tick, tick])))
           @ [''DT-000002''])"
proof -
  have h: "twin_init example_config example_erp True 0 = Inr example_twin"
    by (simp add: twin_init_def deque_new_def example_config_def example_erp_def
        example_twin_def)
  have l: "length (items (event_buffer (record_events example_twin [tick, tick, tick]))) = 2"
    by (simp add: tick_def example_twin_def record_event_def deque_append_def)
  show ?thesis
    using h l event_buffer_bounded_fifo[OF h refl, of "[tick, tick, tick]" SIMULATION_TICK "[]"]
    by (simp add: example_config_def fmt_06d_values map_tl)
qed

text \<open>
  Claim C6. The identifier of a new event is built from the current length of the
  buffer, so once the buffer is full every further event gets the same
  identifier: with a capacity of two, the third and the fourth event are both
  \<open>DT-000002\<close>. The identifiers are not strictly increasing.
\<close>

theorem record_event_ids_repeat:
  "assigned_ids example_twin [tick, tick, tick, tick]
     = [''DT-000000'', ''DT-000001'', ''DT-000002'', ''DT-000002'']"
  by code_simp

section \<open>Properties of the resource pool\<close>

lemma pool_run_snoc: "pool_run c (ops @ [x]) = pool_step (pool_run c ops) x"
  by (simp add: pool_run_def)

lemma pool_step_inv:
  assumes "in_use p \<le> capacity p" and "enqueued p = resumed p @ wait_queue p"
    and "wait_queue p \<noteq> [] \<longrightarrow> in_use p = capacity p"
  shows "in_use (pool_step p x) \<le> capacity p \<and> capacity (pool_step p x) = capacity p \<and>
         enqueued (pool_step p x) = resumed (pool_step p x) @ wait_queue (pool_step p x) \<and>
         (wait_queue (pool_step p x) \<noteq> [] \<longrightarrow> in_use (pool_step p x) = capacity p)"
proof (cases x)
  case (Acquire h)
  with assms show ?thesis by (auto simp: acquire_def in_use_def)
next
  case (Release h)
  show ?thesis
  proof (cases "h \<in> set (users p)")
    case False
    with Release assms show ?thesis by (simp add: release_def)
  next
    case True
    then have len: "length (remove1 h (users p)) = length (users p) - 1" "length (users p) > 0"
      by (auto simp: length_remove1 intro: length_pos_if_in_set)
    show ?thesis
    proof (cases "wait_queue p")
      case Nil
      with True Release assms len show ?thesis by (simp add: release_def in_use_def Let_def)
    next
      case (Cons w ws)
      with True Release assms len show ?thesis by (simp add: release_def in_use_def Let_def)
    qed
  qed
qed

text \<open>
  Claim C2. After every sequence of acquire and release operations on a pool of
  capacity \<open>c\<close>, the number of tokens in use is at most \<open>c\<close>, and the processes
  that were suspended, in request order, are the processes resumed so far, in
  resumption order, followed by the processes still waiting: waiters are resumed
  in the order of their requests. A process waits only while the pool is
  saturated.
\<close>

theorem pool_capacity_fifo:
  "in_use (pool_run c ops) \<le> c \<and> capacity (pool_run c ops) = c \<and>
   enqueued (pool_run c ops) = resumed (pool_run c ops) @ wait_queue (pool_run c ops) \<and>
   (wait_queue (pool_run c ops) \<noteq> [] \<longrightarrow> in_use (pool_run c ops) = c)"
proof (induction ops rule: rev_induct)
  case Nil
  show ?case by (simp add: pool_run_def pool_new_def in_use_def)
next
  case (snoc x ops)
  then show ?case
    using pool_step_inv[of "pool_run c ops" x] by (simp add: pool_run_snoc)
qed

theorem pool_capacity_fifo_witness:
  "wait_queue (pool_run 1 [Acquire 1, Acquire 2, Acquire 3, Release 1]) \<noteq> [] \<and>
   in_use (pool_run 1 [Acquire 1, Acquire 2, Acquire 3, Release 1]) = 1 \<and>
   enqueued (pool_run 1 [Acquire 1, Acquire 2, Acquire 3, Release 1]) = [2, 3] \<and>
   resumed (pool_run 1 [Acquire 1, Acquire 2, Acquire 3, Release 1]) = [2]"
proof -
  have q: "wait_queue (pool_run 1 [Acquire 1, Acquire 2, Acquire 3, Release 1]) = [3]"
    by (simp add: pool_run_def pool_new_def acquire_def release_def in_use_def)
  have r: "resumed (pool_run 1 [Acquire 1, Acquire 2, Acquire 3, Release 1]) = [2]"
    by (simp add: pool_run_def pool_new_def acquire_def release_def in_use_def)
  show ?thesis
    using q r pool_capacity_fifo[of 1 "[Acquire 1, Acquire 2, Acquire 3, Release 1]"] by simp
qed

section \<open>Properties of the metrics summary\<close>

text \<open>
  Claim C4. The guard before the throughput entry tests the number of completed
  orders and the list of order times, not the average order time. After one
  completion recorded with a total time of \<open>0.0\<close> the guard passes, the average
  is \<open>0.0\<close>, and \<open>60.0 / avg_order_time\<close> raises \<open>ZeroDivisionError\<close>.
\<close>

theorem get_summary_zero_time:
  "get_summary
     (record_order_completion metrics_init (example_order [example_line ''SKU-0000'' 2]) 0)
     = Inl ZeroDivisionError"
  by (simp add: get_summary_def record_order_completion_def metrics_init_def example_order_def
      example_line_def total_items_def Let_def)

section \<open>Properties of the synchronisation drift\<close>

lemma drift_totals_bounds:
  assumes "\<forall>(s, item) \<in> set tinv. 0 \<le> inv_quantity item"
    and "\<forall>(s, item) \<in> set einv. 0 \<le> inv_quantity item"
    and "0 \<le> d" and "d \<le> t"
  shows "0 \<le> fst (drift_totals tinv einv (d, t)) \<and>
         fst (drift_totals tinv einv (d, t)) \<le> snd (drift_totals tinv einv (d, t))"
  using assms
proof (induction tinv einv "(d, t)" arbitrary: d t rule: drift_totals.induct)
  case (1 erp_inventory)
  then show ?case by simp
next
  case (2 s dt_item rest erp_inventory total_diff total_norm)
  show ?case
  proof (cases "map_of erp_inventory s")
    case None
    with 2 show ?thesis by simp
  next
    case (Some erp_item)
    then have "(s, erp_item) \<in> set erp_inventory" by (rule map_of_SomeD)
    with "2.prems"(2) have e: "0 \<le> inv_quantity erp_item" by auto
    from "2.prems"(1) have q: "0 \<le> inv_quantity dt_item" by simp
    have r: "\<forall>(s, item) \<in> set rest. 0 \<le> inv_quantity item" using "2.prems"(1) by simp
    have a: "0 \<le> total_diff + \<bar>inv_quantity erp_item - inv_quantity dt_item\<bar>"
      using "2.prems"(3) by simp
    have b: "total_diff + \<bar>inv_quantity erp_item - inv_quantity dt_item\<bar>
             \<le> total_norm + max (max (inv_quantity erp_item) (inv_quantity dt_item)) 1"
      using "2.prems"(4) e q by (simp add: max_def abs_if)
    from "2.hyps"(2)[OF Some refl refl r "2.prems"(2) a b] Some
    show ?thesis by (simp add: Let_def)
  qed
qed

lemma sync_drift_unit_interval_nonneg:
  assumes "\<forall>(s, item) \<in> set (inventory tw). 0 \<le> inv_quantity item"
    and "\<forall>(s, item) \<in> set (fetch_inventory (erp_adapter tw)). 0 \<le> inv_quantity item"
  shows "0 \<le> fst (calculate_sync_drift tw) \<and> fst (calculate_sync_drift tw) \<le> 1"
proof -
  obtain d t where dt: "drift_totals (inventory tw) (fetch_inventory (erp_adapter tw)) (0, 0) = (d, t)"
    by (cases "drift_totals (inventory tw) (fetch_inventory (erp_adapter tw)) (0, 0)")
  from drift_totals_bounds[OF assms, of 0 0] dt have "0 \<le> d" "d \<le> t" by simp_all
  then have "0 \<le> real_of_int d / real_of_int t" "t > 0 \<Longrightarrow> real_of_int d / real_of_int t \<le> 1"
    by simp_all
  with dt show ?thesis
    by (simp add: calculate_sync_drift_def Let_def)
qed

lemma drift_totals_equal:
  assumes "\<forall>(s, item) \<in> set tinv. \<forall>erp_item. map_of einv s = Some erp_item \<longrightarrow>
             inv_quantity erp_item = inv_quantity item"
  shows "fst (drift_totals tinv einv (d, t)) = d"
  using assms
proof (induction tinv einv "(d, t)" arbitrary: d t rule: drift_totals.induct)
  case (1 erp_inventory)
  then show ?case by simp
next
  case (2 s dt_item rest erp_inventory total_diff total_norm)
  have r: "\<forall>(s, item) \<in> set rest. \<forall>erp_item. map_of erp_inventory s = Some erp_item \<longrightarrow>
             inv_quantity erp_item = inv_quantity item"
    using "2.prems" by simp
  show ?case
  proof (cases "map_of erp_inventory s")
    case None
    with "2.hyps"(1)[OF None r] show ?thesis by simp
  next
    case (Some erp_item)
    with "2.prems" have e: "inv_quantity erp_item = inv_quantity dt_item" by simp
    from "2.hyps"(2)[OF Some refl refl r] Some e show ?thesis by (simp add: Let_def)
  qed
qed

text \<open>
  Claim C3. The drift is not always in the closed interval from 0 to 1. A twin
  synchronised with one unit of a SKU in stock picks an order line of three
  units; its on-hand quantity becomes \<open>-2\<close> while the external system still
  reports \<open>1\<close>, and the drift is \<open>3 / 1 = 3.0\<close>. (The lemma
  \<open>sync_drift_unit_interval_nonneg\<close> above shows that the bound holds whenever
  no quantity is negative.)
\<close>

theorem sync_drift_exceeds_one:
  "(case order_process example_twin example_draws (example_order [example_line ''SKU-0000'' 3]) of
      Inl e \<Rightarrow> None
    | Inr (tw, ord) \<Rightarrow> Some (fst (calculate_sync_drift tw))) = Some 3"
  by (simp add: calculate_sync_drift_def order_process_def example_twin_def example_draws_def
      example_order_def example_line_def example_erp_def example_item_def example_config_def
      pick_line_def pick_segment_def advance_def record_event_def deque_append_def
      decrement_quantity_def sample_time_def scaled_std_def pow_half_def total_items_def Let_def)

text \<open>
  Claim C7. When the adapter is not connected, \<open>calculate_sync_drift\<close> returns
  exactly \<open>1.0\<close> and leaves the twin unchanged, whatever the inventories hold.
  When it is connected and every SKU of the twin's inventory that the external
  inventory also has carries the same quantity on both sides, it returns exactly
  \<open>0.0\<close>.
\<close>

theorem sync_drift_disconnected_and_equal:
  "(\<not> connected (erp_adapter tw) \<longrightarrow> calculate_sync_drift tw = (1, tw)) \<and>
   (connected (erp_adapter tw) \<and>
    (\<forall>(s, item) \<in> set (inventory tw). \<forall>erp_item.
        map_of (fetch_inventory (erp_adapter tw)) s = Some erp_item \<longrightarrow>
        inv_quantity erp_item = inv_quantity item)
    \<longrightarrow> fst (calculate_sync_drift tw) = 0)"
proof (intro conjI impI)
  assume "\<not> connected (erp_adapter tw)"
  then show "calculate_sync_drift tw = (1, tw)" by (simp add: calculate_sync_drift_def)
next
  assume a: "connected (erp_adapter tw) \<and>
    (\<forall>(s, item) \<in> set (inventory tw). \<forall>erp_item.
        map_of (fetch_inventory (erp_adapter tw)) s = Some erp_item \<longrightarrow>
        inv_quantity erp_item = inv_quantity item)"
  obtain d t where dt: "drift_totals (inventory tw) (fetch_inventory (erp_adapter tw)) (0, 0) = (d, t)"
    by (cases "drift_totals (inventory tw) (fetch_inventory (erp_adapter tw)) (0, 0)")
  from a drift_totals_equal[of "inventory tw" "fetch_inventory (erp_adapter tw)" 0 0] dt
  have "d = 0" by simp
  with a dt show "fst (calculate_sync_drift tw) = 0"
    by (simp add: calculate_sync_drift_def Let_def)
qed

theorem sync_drift_disconnected_and_equal_witness:
  "\<not> connected (erp_adapter (example_twin\<lparr>erp_adapter := example_erp\<lparr>connected := False\<rparr>\<rparr>)) \<and>
   fst (calculate_sync_drift (example_twin\<lparr>erp_adapter := example_erp\<lparr>connected := False\<rparr>\<rparr>)) = 1 \<and>
   connected (erp_adapter example_twin) \<and>
   map_of (fetch_inventory (erp_adapter example_twin)) ''SKU-0000'' = Some (example_item ''SKU-0000'' 1) \<and>
   inventory example_twin = [(''SKU-0000'', example_item ''SKU-0000'' 1)] \<and>
   fst (calculate_sync_drift example_twin) = 0"
proof -
  have c: "connected (erp_adapter example_twin)"
    by (simp add: example_twin_def example_erp_def)
  have i: "inventory example_twin = [(''SKU-0000'', example_item ''SKU-0000'' 1)]"
    by (simp add: example_twin_def example_erp_def)
  have f: "fetch_inventory (erp_adapter example_twin) = [(''SKU-0000'', example_item ''SKU-0000'' 1)]"
    by (simp add: example_twin_def example_erp_def)
  have n: "\<not> connected (erp_adapter (example_twin\<lparr>erp_adapter := example_erp\<lparr>connected := False\<rparr>\<rparr>))"
    by simp
  show ?thesis
    using sync_drift_disconnected_and_equal[of example_twin]
      sync_drift_disconnected_and_equal[of "example_twin\<lparr>erp_adapter := example_erp\<lparr>connected := False\<rparr>\<rparr>"]
      c i f n
    by simp
qed

section \<open>Properties of the order fulfilment process\<close>

lemma record_event_fields [simp]:
  "inventory (record_event tw ty d) = inventory tw"
  "completed_orders (record_event tw ty d) = completed_orders tw"
  "env_present (record_event tw ty d) = env_present tw"
  "env_now (record_event tw ty d) = env_now tw"
  "config (record_event tw ty d) = config tw"
  by (simp_all add: record_event_def Let_def)

lemma advance_fields [simp]:
  "inventory (advance tw x) = inventory tw"
  "completed_orders (advance tw x) = completed_orders tw"
  "event_buffer (advance tw x) = event_buffer tw"
  "env_present (advance tw x) = env_present tw"
  "config (advance tw x) = config tw"
  by (simp_all add: advance_def)






lemma pick_segment_snd [simp]: "snd (pick_segment tw l) = l\<lparr>picked_quantity := quantity l\<rparr>"
  by (simp add: pick_segment_def Let_def)

lemma pick_segment_completed [simp]:
  "completed_orders (fst (pick_segment tw l)) = completed_orders tw"
  "env_present (fst (pick_segment tw l)) = env_present tw"
  by (simp_all add: pick_segment_def Let_def)

lemma pick_segment_result:
  "pick_segment tw0 l = (tw1, l') \<Longrightarrow>
   l' = l\<lparr>picked_quantity := quantity l\<rparr> \<and> completed_orders tw1 = completed_orders tw0"
  using pick_segment_snd[of tw0 l] pick_segment_completed(1)[of tw0 l] by simp

lemma pick_line_result:
  assumes "pick_line tw numpy dr l = Inr (tw1, l')"
  shows "l' = l\<lparr>picked_quantity := quantity l\<rparr> \<and> completed_orders tw1 = completed_orders tw"
proof -
  obtain w t p where dr: "dr = (w, t, p)" by (cases dr)
  from assms show ?thesis
    by (auto simp: dr pick_line_def split: sum.splits dest!: pick_segment_result)
qed

lemma pick_lines_result:
  "pick_lines tw numpy draws i ls = Inr (tw', ls') \<Longrightarrow>
   ls' = map (\<lambda>l. l\<lparr>picked_quantity := quantity l\<rparr>) ls \<and>
   completed_orders tw' = completed_orders tw"
proof (induction ls arbitrary: tw i tw' ls')
  case Nil
  then show ?case by simp
next
  case (Cons l ls)
  from Cons.prems obtain tw1 l1 tw2 ls2
    where a: "pick_line tw numpy (draws i) l = Inr (tw1, l1)"
      and b: "pick_lines tw1 numpy draws (Suc i) ls = Inr (tw2, ls2)"
      and c: "tw' = tw2" "ls' = l1 # ls2"
    by (auto split: sum.splits)
  from pick_line_result[OF a] Cons.IH[OF b] c show ?case by simp
qed

text \<open>
  Claim C10. The order that \<open>order_process\<close> appends to the completed orders is
  fully picked: every line's picked quantity equals its ordered quantity (the
  ordered quantities are those of the order as it was received), so
  \<open>picked_items\<close> equals \<open>total_items\<close> and \<open>is_fully_picked\<close> holds. Without a
  simulation environment the process returns at once and completes no order.
\<close>

theorem completed_order_fully_picked:
  assumes "order_process tw dr ord = Inr (tw', ord')"
  shows "completed_orders tw' = completed_orders tw @ (if env_present tw then [ord'] else []) \<and>
         (env_present tw \<longrightarrow>
            status ord' = COMPLETED \<and>
            map quantity (lines ord') = map quantity (lines ord) \<and>
            list_all (\<lambda>l. picked_quantity l = quantity l) (lines ord') \<and>
            picked_items ord' = total_items ord' \<and> is_fully_picked ord')"
proof (cases "env_present tw")
  case False
  with assms show ?thesis by (simp add: order_process_def)
next
  case True
  define tw2 where "tw2 = advance (record_event tw ORDER_STATUS_CHANGED
                     [(''order_id'', VStr (order_id ord)),
                      (''status'', VStr (status_value PICKING)),
                      (''sim_time'', VFloat (env_now tw))]) (worker_wait dr)"
  define tw3 where "tw3 = record_event tw2 WORKER_ASSIGNED
                     [(''order_id'', VStr (order_id ord)), (''sim_time'', VFloat (env_now tw2))]"
  from assms True obtain tw4 ls
    where p: "pick_lines tw3 (numpy_available dr) (line_draws dr) 0 (lines ord) = Inr (tw4, ls)"
    by (auto simp: order_process_def Let_def tw3_def tw2_def split: sum.splits)
  from pick_lines_result[OF p]
  have ls: "ls = map (\<lambda>l. l\<lparr>picked_quantity := quantity l\<rparr>) (lines ord)"
    and c4: "completed_orders tw4 = completed_orders tw3" by simp_all
  have c3: "completed_orders tw3 = completed_orders tw" by (simp add: tw3_def tw2_def)
  from assms True p have o: "lines ord' = ls" "status ord' = COMPLETED"
    and t: "completed_orders tw' = completed_orders tw4 @ [ord']"
    by (auto simp: order_process_def Let_def tw3_def tw2_def split: sum.splits)
  have q: "map quantity ls = map quantity (lines ord)"
    "map picked_quantity ls = map quantity (lines ord)"
    by (simp_all add: ls comp_def)
  have f: "list_all (\<lambda>l. picked_quantity l = quantity l) ls" by (simp add: ls list_all_iff)
  have g: "list_all (\<lambda>l. picked_quantity l \<ge> quantity l) ls" by (simp add: ls list_all_iff)
  from True o t c3 c4 q f g show ?thesis
    by (simp add: picked_items_def total_items_def is_fully_picked_def)
qed

theorem completed_order_fully_picked_witness:
  "env_present example_twin \<and>
   (case order_process example_twin example_draws
           (example_order [example_line ''SKU-0000'' 3, example_line ''SKU-9999'' 2]) of
      Inl e \<Rightarrow> False
    | Inr (tw', ord') \<Rightarrow>
        completed_orders tw' = [ord'] \<and> map picked_quantity (lines ord') = [3, 2] \<and>
        picked_items ord' = 5 \<and> is_fully_picked ord')"
proof -
  have e: "env_present example_twin" by (simp add: example_twin_def)
  have c: "completed_orders example_twin = []" by (simp add: example_twin_def)
  obtain tw' ord' where r: "order_process example_twin example_draws
        (example_order [example_line ''SKU-0000'' 3, example_line ''SKU-9999'' 2]) = Inr (tw', ord')"
    by (simp add: order_process_def example_twin_def example_draws_def
      example_order_def example_line_def example_erp_def example_item_def example_config_def
      pick_line_def pick_segment_def advance_def record_event_def deque_append_def
      decrement_quantity_def sample_time_def scaled_std_def pow_half_def total_items_def Let_def)
  have l: "map quantity (lines (example_order [example_line ''SKU-0000'' 3, example_line ''SKU-9999'' 2]))
             = [3, 2]"
    by (simp add: example_order_def example_line_def)
  from completed_order_fully_picked[OF r] e c l
  have f: "completed_orders tw' = [ord']" "map quantity (lines ord') = [3, 2]"
    "list_all (\<lambda>l. picked_quantity l = quantity l) (lines ord')"
    "picked_items ord' = total_items ord'" "is_fully_picked ord'"
    by simp_all
  from f(2,3) have g: "map picked_quantity (lines ord') = [3, 2]"
    by (metis (mono_tags, lifting) list_all_iff map_eq_conv)
  from g have k: "picked_items ord' = 5"
    by (simp add: picked_items_def)
  from e f(1) g k f(5) show ?thesis by (simp add: r)
qed

section \<open>Properties of the calibration scan\<close>

lemma last_created_snoc:
  "last_created (es @ [e]) oid =
     (if event_type e = ORDER_CREATED \<and> truthy (dict_get (data e) ''order_id'') \<and>
         dict_key (dict_get (data e) ''order_id'') = dict_key oid
      then Some (timestamp e) else last_created es oid)"
  by (induction es) (auto split: option.splits)

lemma calibrate_step_starts:
  assumes "\<forall>oid. order_starts st (dict_key oid) = last_created before oid"
  shows "order_starts (calibrate_step st e) (dict_key oid) = last_created (before @ [e]) oid"
  using assms
  by (auto simp: calibrate_step_def last_created_snoc Let_def split: option.splits)

lemma calibrate_step_pick_times:
  assumes "\<forall>oid. order_starts st (dict_key oid) = last_created before oid"
  shows "cal_pick_times (calibrate_step st e) =
         cal_pick_times st @
           (if is_picked_event e
            then (case last_created before (dict_get (data e) ''order_id'') of
                    Some t0 \<Rightarrow> [(timestamp e - t0) / 60] | None \<Rightarrow> [])
            else [])"
proof -
  have s: "order_starts st (dict_key (dict_get (data e) ''order_id''))
             = last_created before (dict_get (data e) ''order_id'')"
    using assms by blast
  show ?thesis
    using s
    by (auto simp: calibrate_step_def is_picked_event_def minutes_between_def Let_def
        split: option.splits)
qed

lemma calibrate_fold_pick_times:
  assumes "\<forall>oid. order_starts st (dict_key oid) = last_created before oid"
  shows "cal_pick_times (foldl calibrate_step st es) = cal_pick_times st @ pick_samples before es"
  using assms
proof (induction es arbitrary: st before)
  case Nil
  show ?case by simp
next
  case (Cons e es)
  have s: "\<forall>oid. order_starts (calibrate_step st e) (dict_key oid) = last_created (before @ [e]) oid"
    using calibrate_step_starts[OF Cons.prems] by simp
  from Cons.IH[OF s] calibrate_step_pick_times[OF Cons.prems, of e]
  show ?case by simp
qed

lemma pick_samples_positive:
  "picks_follow before es \<Longrightarrow> list_all (\<lambda>x. 0 < x) (pick_samples before es)"
  by (induction es arbitrary: before) (auto split: option.splits if_splits)

text \<open>
  Claim C8, as stated, fails: a second picked status change for an order adds a
  second sample, and a picked event that comes later in the input than the
  created event but carries an earlier timestamp adds a negative sample.
\<close>

theorem calibrate_pick_samples_counterexample:
  "cal_pick_times (calibrate_scan
      [created_at_ev (VStr ''ORD-1'') 0, picked_at_ev (VStr ''ORD-1'') 180,
       picked_at_ev (VStr ''ORD-1'') 240]) = [3, 4] \<and>
   cal_pick_times (calibrate_scan
      [created_at_ev (VStr ''ORD-1'') 600, picked_at_ev (VStr ''ORD-1'') 0]) = [- 10]"
  by (simp add: calibrate_scan_def scan_init_def calibrate_step_def created_at_ev_def
      picked_at_ev_def example_event_def dict_get_def minutes_between_def Let_def)

text \<open>
  Claim C8, amended. On an input in which every picked status change carries a
  later timestamp than the latest \<open>ORDER_CREATED\<close> event of its order id that
  comes before it in the input, the scan records one pick-duration sample for
  every picked status change whose order id has a created event earlier in the
  input: the minutes, a positive number, from the timestamp of the latest such
  created event to the timestamp of the picked event. A picked event with no
  created event for its order id before it in the input contributes no sample.
  Order ids are compared as dictionary keys.
\<close>

theorem calibrate_pick_samples:
  assumes "picks_follow [] erp_events"
  shows "cal_pick_times (calibrate_scan erp_events) = pick_samples [] erp_events \<and>
         list_all (\<lambda>x. 0 < x) (cal_pick_times (calibrate_scan erp_events))"
proof -
  have "cal_pick_times (calibrate_scan erp_events) = pick_samples [] erp_events"
    using calibrate_fold_pick_times[of scan_init "[]" erp_events]
    by (simp add: calibrate_scan_def scan_init_def)
  with pick_samples_positive[OF assms] show ?thesis by simp
qed

theorem calibrate_pick_samples_witness:
  "picks_follow []
     [picked_at_ev (VStr ''ORD-2'') 60, created_at_ev (VInt 1) 0, picked_at_ev (VFloat 1) 180,
      picked_at_ev (VBool True) 240] \<and>
   cal_pick_times (calibrate_scan
     [picked_at_ev (VStr ''ORD-2'') 60, created_at_ev (VInt 1) 0, picked_at_ev (VFloat 1) 180,
      picked_at_ev (VBool True) 240]) = [3, 4]"
proof -
  have h: "picks_follow []
     [picked_at_ev (VStr ''ORD-2'') 60, created_at_ev (VInt 1) 0, picked_at_ev (VFloat 1) 180,
      picked_at_ev (VBool True) 240]"
    by (simp add: is_picked_event_def created_at_ev_def picked_at_ev_def example_event_def
        dict_get_def)
  show ?thesis
    using h calibrate_pick_samples[OF h]
    by (simp add: is_picked_event_def created_at_ev_def picked_at_ev_def example_event_def
        dict_get_def)
qed

end
